theory Spec2Isabelle
  imports Main "HOL-Library.Sublist"
begin

section \<open>SMTPvrfy: the embedding of smtp\_vrfy.py\<close>

text \<open>
  The program is Python 3 (it imports \<^verbatim>\<open>urllib.parse\<close> and uses f-strings). Exceptions
  are values; the network is a script given to the model; everything the program does to
  the outside (sockets, sleeping, printing) is recorded in a list of events.
\<close>

subsection \<open>Python values\<close>

datatype py_exn = TypeError | ValueError | OverflowError | UnboundLocalError

text \<open>\<^verbatim>\<open>pat in s\<close> on two texts: \<open>pat\<close> occurs in \<open>s\<close> as a contiguous run.\<close>

fun py_in :: "string \<Rightarrow> string \<Rightarrow> bool" where
  "py_in pat [] = (pat = [])"
| "py_in pat (c # cs) = (prefix pat (c # cs) \<or> py_in pat cs)"

text \<open>
  A \<open>char\<close> is a code point below 256. \<^verbatim>\<open>int(s)\<close> in base 10: the whitespace
  around the number is dropped, which for \<^verbatim>\<open>int\<close> is tab to carriage return, the
  space, and the two spaces above 127 (0x85 and 0xA0), but not the separators 0x1C to
  0x1F; one sign is allowed; then come digits, where single underscores may stand between
  digits; more than 4300 digits are refused (the interpreter's default limit).
\<close>

definition int_space :: "char \<Rightarrow> bool" where
  "int_space c = (of_char c \<in> set [9, 10, 11, 12, 13, 32, 133, 160 :: nat])"


definition is_digit :: "char \<Rightarrow> bool" where
  "is_digit c = (48 \<le> (of_char c :: nat) \<and> (of_char c :: nat) \<le> 57)"

definition digit_val :: "char \<Rightarrow> nat" where
  "digit_val c = of_char c - 48"

definition strip_space :: "string \<Rightarrow> string" where
  "strip_space s = rev (dropWhile int_space (rev (dropWhile int_space s)))"

fun digits_from :: "nat \<Rightarrow> string \<Rightarrow> nat option" where
  "digits_from acc [] = Some acc"
| "digits_from acc [c] = (if is_digit c then Some (10 * acc + digit_val c) else None)"
| "digits_from acc (c # d # ds) =
     (if is_digit c then digits_from (10 * acc + digit_val c) (d # ds)
      else if c = CHR ''_'' \<and> is_digit d then digits_from (10 * acc + digit_val d) ds
      else None)"

definition digits :: "string \<Rightarrow> nat option" where
  "digits s =
     (case s of
        [] \<Rightarrow> None
      | c # cs \<Rightarrow>
          if \<not> is_digit c then None
          else if 4300 < length (filter is_digit s) then None
          else digits_from (digit_val c) cs)"

definition py_int :: "string \<Rightarrow> int option" where
  "py_int s =
     (case strip_space s of
        [] \<Rightarrow> None
      | c # cs \<Rightarrow>
          if c = CHR ''-'' then map_option (\<lambda>n. - int n) (digits cs)
          else if c = CHR ''+'' then map_option int (digits cs)
          else map_option int (digits (c # cs)))"

subsection \<open>The network and the events\<close>

text \<open>
  What the \<open>i\<close>-th socket of a run does. \<open>IOError\<close>s carry their text (\<^verbatim>\<open>str(e)\<close>).
  Replies are texts, as the tests \<^verbatim>\<open>"252" in result\<close> need; the banner's content is
  never used. \<open>SocketError\<close> is a \<^verbatim>\<open>socket.socket\<close> call that raises,
  \<open>ResolveError\<close> a host that \<^verbatim>\<open>connect\<close> cannot resolve, \<open>ConnectError\<close> a
  connection that fails. \<open>SendTypeError\<close> is a transport that refuses the text command
  with a \<^verbatim>\<open>TypeError\<close>, which is no \<^verbatim>\<open>IOError\<close>.
\<close>

datatype probe =
    SocketError (msg: string)
  | ResolveError (msg: string)
  | ConnectError (msg: string)
  | BannerError (msg: string)
  | SendError (msg: string)
  | SendTypeError
  | ReplyError (msg: string)
  | Reply (msg: string)

datatype (discs_sels) event =
    Open nat
  | Connect nat string int
  | Send nat string
  | Close nat
  | Sleep nat
  | Print string

text \<open>The three \<^verbatim>\<open>break\<close> statements of the loop, lines 93, 96 and 103.\<close>

datatype reason = AuthRequired | Unsupported | ConnectionError

text \<open>How the \<^verbatim>\<open>try\<close> block is left.\<close>

datatype signal = Fall | Brk reason | IOError string | Exn py_exn

text \<open>How one iteration is left.\<close>

datatype flow = Next | Break reason | Raise py_exn

datatype status = Completed | Aborted reason

text \<open>
  What a call does: it returns \<^verbatim>\<open>valid_users\<close>, or an exception leaves it.
  The status says how the loop was left; the program shows it only by the line it prints
  before a \<^verbatim>\<open>break\<close>.
\<close>

datatype outcome = Returned "string list" status | Raised py_exn

subsection \<open>\<^verbatim>\<open>verify_smtp\<close>\<close>

datatype port_arg = PortNone | PortStr string | PortInt int

text \<open>Lines 54 to 57.\<close>

definition resolve_port :: "port_arg \<Rightarrow> py_exn + int" where
  "resolve_port port =
     (case port of
        PortNone \<Rightarrow> Inr 25
      | PortStr s \<Rightarrow>
          if s = '' '' then Inr 25
          else (case py_int s of None \<Rightarrow> Inl ValueError | Some n \<Rightarrow> Inr n)
      | PortInt n \<Rightarrow> Inr n)"

text \<open>
  A line \<^verbatim>\<open>print("...%s...") % (x)\<close> prints the text as it stands and then raises
  \<^verbatim>\<open>TypeError\<close>, since \<^verbatim>\<open>print\<close> returns \<^verbatim>\<open>None\<close>.
\<close>

definition msg_connecting :: string where
  "msg_connecting = ''[*] Connecting to %s on port %s to execute the test''"

definition msg_banner :: string where
  "msg_banner = ''[*] The system banner is: '' @ [CHR 0x27] @ ''%s'' @ [CHR 0x27]"

definition msg_valid :: string where
  "msg_valid = ''[+] Username %s is valid''"

definition msg_error :: string where
  "msg_error = ''[!] The following error occurred: '' @ [CHR 0x27] @ ''%s'' @ [CHR 0x27]"

text \<open>Lines 84 to 96.\<close>

definition classify :: "int \<Rightarrow> string \<Rightarrow> string \<Rightarrow> string list
    \<Rightarrow> signal \<times> string list \<times> event list" where
  "classify verbose user result valid_users =
     (if py_in ''252'' result then
        (if verbose > 1 then (Exn TypeError, valid_users @ [user], [Print msg_valid])
         else (Fall, valid_users @ [user], []))
      else if py_in ''550'' result then
        (if verbose > 1 then (Fall, valid_users, [Print ''[-] 550 Username doesn't exist''])
         else (Fall, valid_users, []))
      else if py_in ''503'' result then
        (Brk AuthRequired, valid_users, [Print ''[!] The server requires authentication''])
      else if py_in ''500'' result then
        (Brk Unsupported, valid_users, [Print ''[!] The VRFY command is not supported''])
      else (Fall, valid_users, []))"

text \<open>
  Lines 67 to 96, the \<^verbatim>\<open>try\<close> block. \<^verbatim>\<open>settimeout\<close> refuses a negative number
  of seconds with \<^verbatim>\<open>ValueError\<close> and one above 9223372036 (more nanoseconds than 64
  bits hold) with \<^verbatim>\<open>OverflowError\<close>. \<^verbatim>\<open>connect\<close> refuses a port that is no C
  \<^verbatim>\<open>int\<close>, then resolves the host, then refuses a port outside 0..65535, each time
  with \<^verbatim>\<open>OverflowError\<close>, and only then reaches the network. Line 78 is never
  reached: with a verbosity above 0, line 74 has raised.
\<close>

definition try_block :: "int \<Rightarrow> int \<Rightarrow> string \<Rightarrow> int \<Rightarrow> nat \<Rightarrow> string \<Rightarrow> probe
    \<Rightarrow> string list \<Rightarrow> signal \<times> string list \<times> event list" where
  "try_block verbose timeout_value ip port i user p valid_users =
     (if is_SocketError p then (IOError (msg p), valid_users, [])
      else if timeout_value < 0 then (Exn ValueError, valid_users, [Open i])
      else if 9223372036 < timeout_value then (Exn OverflowError, valid_users, [Open i])
      else if port < - 2147483648 \<or> 2147483647 < port then
        (Exn OverflowError, valid_users, [Open i])
      else if is_ResolveError p then (IOError (msg p), valid_users, [Open i])
      else if port < 0 \<or> 65535 < port then (Exn OverflowError, valid_users, [Open i])
      else if is_ConnectError p then (IOError (msg p), valid_users, [Open i])
      else if is_BannerError p then
        (IOError (msg p), valid_users, [Open i, Connect i ip port])
      else if verbose > 0 then
        (Exn TypeError, valid_users, [Open i, Connect i ip port, Print msg_banner])
      else if is_SendError p then
        (IOError (msg p), valid_users, [Open i, Connect i ip port])
      else if p = SendTypeError then
        (Exn TypeError, valid_users, [Open i, Connect i ip port])
      else if is_ReplyError p then
        (IOError (msg p), valid_users,
         [Open i, Connect i ip port, Send i (''VRFY '' @ user @ [CHR 0x0A])])
      else
        (case classify verbose user (msg p) valid_users of
           (sg, vs, es) \<Rightarrow>
             (sg, vs, [Open i, Connect i ip port, Send i (''VRFY '' @ user @ [CHR 0x0A])] @ es)))"

text \<open>Lines 98 to 103, the handler of \<^verbatim>\<open>IOError\<close>.\<close>

definition except_IOError :: "int \<Rightarrow> string \<Rightarrow> signal \<times> event list" where
  "except_IOError verbose e =
     (if verbose > 1 then (Exn TypeError, [Print msg_error])
      else if py_in ''Operation now in progress'' e then
        (Brk ConnectionError, [Print ''[!] The connection to SMTP failed''])
      else (Fall, []))"

text \<open>
  Lines 105 to 109. The name \<open>s\<close> holds the socket made last, if any: a \<^verbatim>\<open>close\<close> on
  an unbound \<open>s\<close> raises, and the exception of a \<^verbatim>\<open>finally\<close> block replaces whatever
  was on its way.
\<close>

definition finally_block :: "nat \<Rightarrow> nat option \<Rightarrow> signal \<Rightarrow> flow \<times> event list" where
  "finally_block sleep_value s sg =
     (case s of
        None \<Rightarrow> (Raise UnboundLocalError, [])
      | Some j \<Rightarrow>
          (case sg of Fall \<Rightarrow> Next | Brk r \<Rightarrow> Break r | IOError e \<Rightarrow> Next | Exn x \<Rightarrow> Raise x,
           Close j # (if sleep_value \<noteq> 0 then [Sleep sleep_value] else [])))"

text \<open>One iteration of the loop, lines 66 to 109.\<close>

definition body :: "int \<Rightarrow> int \<Rightarrow> nat \<Rightarrow> string \<Rightarrow> int \<Rightarrow> nat \<Rightarrow> string \<Rightarrow> probe \<Rightarrow> nat option
    \<Rightarrow> string list \<Rightarrow> flow \<times> nat option \<times> string list \<times> event list" where
  "body verbose timeout_value sleep_value ip port i user p s valid_users =
     (case try_block verbose timeout_value ip port i user p valid_users of
        (sg, vs, es) \<Rightarrow>
          (let s' = (if is_SocketError p then s else Some i);
               (sg', es') = (case sg of IOError e \<Rightarrow> except_IOError verbose e | _ \<Rightarrow> (sg, []));
               (fl, es'') = finally_block sleep_value s' sg'
           in (fl, s', vs, es @ es' @ es'')))"

text \<open>The loop of line 65, from the \<open>i\<close>-th socket on.\<close>

fun loop :: "int \<Rightarrow> int \<Rightarrow> nat \<Rightarrow> string \<Rightarrow> int \<Rightarrow> (nat \<Rightarrow> probe) \<Rightarrow> nat \<Rightarrow> string list
    \<Rightarrow> nat option \<Rightarrow> string list \<Rightarrow> outcome \<times> event list" where
  "loop verbose timeout_value sleep_value ip port srv i [] s valid_users =
     (Returned valid_users Completed, [])"
| "loop verbose timeout_value sleep_value ip port srv i (user # usernames) s valid_users =
     (case body verbose timeout_value sleep_value ip port i user (srv i) s valid_users of
        (Next, s', vs, es) \<Rightarrow>
          (case loop verbose timeout_value sleep_value ip port srv (Suc i) usernames s' vs of
             (out, es') \<Rightarrow> (out, es @ es'))
      | (Break r, s', vs, es) \<Rightarrow> (Returned vs (Aborted r), es)
      | (Raise x, s', vs, es) \<Rightarrow> (Raised x, es))"

text \<open>
  Lines 50 to 111. The timeout is a whole number of seconds and the delay a natural
  number; \<open>srv\<close> is the network seen at \<open>ip\<close>.
\<close>

definition verify_smtp :: "int \<Rightarrow> string list \<Rightarrow> string \<Rightarrow> int \<Rightarrow> nat \<Rightarrow> port_arg
    \<Rightarrow> (nat \<Rightarrow> probe) \<Rightarrow> outcome \<times> event list" where
  "verify_smtp verbose usernames ip timeout_value sleep_value port srv =
     (case resolve_port port of
        Inl x \<Rightarrow> (Raised x, [])
      | Inr p \<Rightarrow>
          if verbose > 0 then (Raised TypeError, [Print msg_connecting])
          else loop verbose timeout_value sleep_value ip p srv 0 usernames None [])"

text \<open>The candidate an event is about: its socket, its connection or its command.\<close>

fun candidate_of :: "event \<Rightarrow> nat option" where
  "candidate_of (Open i) = Some i"
| "candidate_of (Connect i h q) = Some i"
| "candidate_of (Send i c) = Some i"
| "candidate_of (Close j) = None"
| "candidate_of (Sleep d) = None"
| "candidate_of (Print m) = None"

definition attempted :: "event list \<Rightarrow> nat list" where
  "attempted es = List.map_filter candidate_of es"

subsection \<open>\<^verbatim>\<open>get_usernames\<close>\<close>









section \<open>Properties\<close>

subsection \<open>One iteration, and the loop\<close>

lemma body_Reply:
  "verbose \<le> 0 \<Longrightarrow> 0 \<le> tm \<Longrightarrow> tm \<le> 9223372036 \<Longrightarrow> 0 \<le> port \<Longrightarrow> port \<le> 65535 \<Longrightarrow>
   body verbose tm sl ip port i user (Reply r) s valid =
     (if py_in ''252'' r then
        (Next, Some i, valid @ [user],
         [Open i, Connect i ip port, Send i (''VRFY '' @ user @ [CHR 0x0A]), Close i]
           @ (if sl \<noteq> 0 then [Sleep sl] else []))
      else if py_in ''550'' r then
        (Next, Some i, valid,
         [Open i, Connect i ip port, Send i (''VRFY '' @ user @ [CHR 0x0A]), Close i]
           @ (if sl \<noteq> 0 then [Sleep sl] else []))
      else if py_in ''503'' r then
        (Break AuthRequired, Some i, valid,
         [Open i, Connect i ip port, Send i (''VRFY '' @ user @ [CHR 0x0A]),
          Print ''[!] The server requires authentication'', Close i]
           @ (if sl \<noteq> 0 then [Sleep sl] else []))
      else if py_in ''500'' r then
        (Break Unsupported, Some i, valid,
         [Open i, Connect i ip port, Send i (''VRFY '' @ user @ [CHR 0x0A]),
          Print ''[!] The VRFY command is not supported'', Close i]
           @ (if sl \<noteq> 0 then [Sleep sl] else []))
      else
        (Next, Some i, valid,
         [Open i, Connect i ip port, Send i (''VRFY '' @ user @ [CHR 0x0A]), Close i]
           @ (if sl \<noteq> 0 then [Sleep sl] else [])))"
  by (simp add: body_def try_block_def finally_block_def classify_def)

lemma body_connect_failure:
  "verbose \<le> 0 \<Longrightarrow> 0 \<le> tm \<Longrightarrow> tm \<le> 9223372036 \<Longrightarrow> 0 \<le> port \<Longrightarrow> port \<le> 65535 \<Longrightarrow>
   p = ConnectError e \<or> p = ResolveError e \<Longrightarrow>
   body verbose tm sl ip port i user p s valid =
     (if py_in ''Operation now in progress'' e then
        (Break ConnectionError, Some i, valid,
         [Open i, Print ''[!] The connection to SMTP failed'', Close i]
           @ (if sl \<noteq> 0 then [Sleep sl] else []))
      else
        (Next, Some i, valid, [Open i, Close i] @ (if sl \<noteq> 0 then [Sleep sl] else [])))"
  by (auto simp: body_def try_block_def finally_block_def except_IOError_def)







lemma body_valid:
  "body v tm sl ip port i u p s valid = (fl, s', vs, es) \<Longrightarrow> vs = valid \<or> vs = valid @ [u]"
  by (auto simp: body_def try_block_def classify_def Let_def split: if_splits prod.splits)

lemma loop_subseq:
  "fst (loop v tm sl ip port srv i us s valid) = Returned vs st \<Longrightarrow>
   \<exists>ws. vs = valid @ ws \<and> subseq ws us"
proof (induction us arbitrary: i s valid)
  case Nil
  then show ?case by simp
next
  case (Cons u us)
  obtain fl s' vs' es where b: "body v tm sl ip port i u (srv i) s valid = (fl, s', vs', es)"
    by (cases "body v tm sl ip port i u (srv i) s valid") auto
  from body_valid [OF b] consider "vs' = valid" | "vs' = valid @ [u]"
    by auto
  then obtain w where w: "vs' = valid @ w" "w = [] \<or> w = [u]"
    by (cases) auto
  show ?case
  proof (cases fl)
    case Next
    with Cons.prems b have "fst (loop v tm sl ip port srv (Suc i) us s' vs') = Returned vs st"
      by (simp split: prod.splits)
    from Cons.IH [OF this] obtain ws where ws: "vs = vs' @ ws" "subseq ws us" by blast
    have "subseq (w @ ws) (u # us)"
      using w(2) ws(2) by auto
    with w ws show ?thesis by auto
  next
    case (Break r)
    with Cons.prems b have "vs = vs'" by simp
    moreover have "subseq w (u # us)"
      using w(2) by auto
    ultimately show ?thesis using w by auto
  next
    case (Raise x)
    with Cons.prems b show ?thesis by simp
  qed
qed

lemma subseq_count_list: "subseq xs ys \<Longrightarrow> count_list xs u \<le> count_list ys u"
  by (induction rule: list_emb.induct) auto

lemma body_teardown:
  "body v tm sl ip port i u p s valid = (fl, Some j, vs, es) \<Longrightarrow>
   dropWhile (\<lambda>e. \<not> is_Close e) es = Close j # (if sl \<noteq> 0 then [Sleep sl] else [])
   \<and> filter is_Sleep (takeWhile (\<lambda>e. \<not> is_Close e) es) = []
   \<and> fl \<noteq> Raise UnboundLocalError"
  by (auto simp: body_def try_block_def except_IOError_def finally_block_def classify_def
      split: if_splits option.splits signal.splits prod.splits)

lemma body_socket:
  "\<not> is_SocketError p \<Longrightarrow> body v tm sl ip port i u p s valid = (fl, s', vs, es) \<Longrightarrow>
   s' = Some i \<and> hd es = Open i \<and> filter is_Close es = [Close i]
   \<and> attempted (dropWhile (\<lambda>e. \<not> is_Close e) es) = []"
  by (auto simp: body_def try_block_def except_IOError_def finally_block_def classify_def
      attempted_def map_filter_simps
      split: if_splits option.splits signal.splits prod.splits)

lemma body_bound:
  "body v tm sl ip port i u p (Some j) valid = (fl, s', vs, es) \<Longrightarrow>
   s' \<noteq> None \<and> fl \<noteq> Raise UnboundLocalError"
  by (auto simp: body_def try_block_def except_IOError_def finally_block_def classify_def
      split: if_splits option.splits signal.splits prod.splits)

lemma loop_bound:
  "fst (loop v tm sl ip port srv i us (Some j) valid) \<noteq> Raised UnboundLocalError"
proof (induction us arbitrary: i j valid)
  case Nil
  then show ?case by simp
next
  case (Cons u us)
  obtain fl s' vs es where b: "body v tm sl ip port i u (srv i) (Some j) valid = (fl, s', vs, es)"
    by (cases "body v tm sl ip port i u (srv i) (Some j) valid") auto
  from body_bound [OF b] obtain j' where s': "s' = Some j'" and fl: "fl \<noteq> Raise UnboundLocalError"
    by auto
  show ?case
    using b s' fl Cons.IH [of "Suc i" j' vs]
    by (cases fl) (auto split: prod.splits)
qed

lemma loop_events:
  "srv i = p \<Longrightarrow> body v tm sl ip port i u p s valid = (fl, s', vs, es) \<Longrightarrow>
   snd (loop v tm sl ip port srv i (u # us) s valid)
     = es @ (if fl = Next then snd (loop v tm sl ip port srv (Suc i) us s' vs) else [])"
  by (cases fl) (auto split: prod.splits)


subsection \<open>Classification of the reply\<close>



subsection \<open>Aborting the scan\<close>



text \<open>
  C3, as the claim states it, fails: a connection that times out raises with the text
  \<^verbatim>\<open>timed out\<close>, which line 101 does not look for, and the scan goes on to the next
  candidate.
\<close>

theorem timed_out_counterexample:
  "verify_smtp 0 [''alice'', ''bob''] ''10.0.0.1'' 5 0 (PortInt 25) (\<lambda>i. ConnectError ''timed out'')
     = (Returned [] Completed, [Open 0, Close 0, Open 1, Close 1])"
  by (simp add: verify_smtp_def resolve_port_def body_connect_failure)

text \<open>
  C3, amended. When the host of a candidate cannot be resolved or its connection fails,
  the text of the error decides: if it holds \<^verbatim>\<open>Operation now in progress\<close> the loop is
  left at once through the \<^verbatim>\<open>break\<close> of line 103, and the events of the whole loop
  end with the teardown of this candidate; with any other text, \<^verbatim>\<open>timed out\<close>
  among them, the confirmed list is unchanged and the loop goes on with the next
  candidate.
\<close>

theorem loop_connect_failure:
  assumes "verbose \<le> 0" and "0 \<le> timeout_value" and "timeout_value \<le> 9223372036"
    and "0 \<le> port" and "port \<le> 65535"
    and "srv i = ConnectError e \<or> srv i = ResolveError e"
  shows "loop verbose timeout_value sleep_value ip port srv i (user # rest) s valid_users =
     (if py_in ''Operation now in progress'' e then
        (Returned valid_users (Aborted ConnectionError),
         [Open i, Print ''[!] The connection to SMTP failed'', Close i]
           @ (if sleep_value \<noteq> 0 then [Sleep sleep_value] else []))
      else
        (fst (loop verbose timeout_value sleep_value ip port srv (Suc i) rest (Some i) valid_users),
         [Open i, Close i] @ (if sleep_value \<noteq> 0 then [Sleep sleep_value] else [])
           @ snd (loop verbose timeout_value sleep_value ip port srv (Suc i) rest (Some i)
                    valid_users)))"
  using assms by (simp add: body_connect_failure [where p = "srv i"] split: prod.splits)

theorem loop_connect_failure_witness:
  "(0::int) \<le> 0 \<and> (0::int) \<le> 5 \<and> (5::int) \<le> 9223372036 \<and> (0::int) \<le> 25
   \<and> (25::int) \<le> 65535
   \<and> loop 0 5 0 ''10.0.0.1'' 25 (\<lambda>i. ConnectError ''[Errno 115] Operation now in progress'') 0
        [''alice'', ''bob''] None []
       = (Returned [] (Aborted ConnectionError),
          [Open 0, Print ''[!] The connection to SMTP failed'', Close 0])
   \<and> loop 0 5 0 ''10.0.0.1'' 25 (\<lambda>i. ConnectError ''[Errno 111] Connection refused'') 0
        [''alice''] None []
       = (Returned [] Completed, [Open 0, Close 0])"
  using loop_connect_failure [of 0 5 25 "\<lambda>i. ConnectError ''[Errno 115] Operation now in progress''"
      0 "''[Errno 115] Operation now in progress''" 0 "''10.0.0.1''" "''alice''" "[''bob'']" None "[]"]
    loop_connect_failure [of 0 5 25 "\<lambda>i. ConnectError ''[Errno 111] Connection refused''" 0
      "''[Errno 111] Connection refused''" 0 "''10.0.0.1''" "''alice''" "[]" None "[]"]
  by simp

subsection \<open>The confirmed list\<close>

text \<open>
  C10. The list that \<^verbatim>\<open>verify_smtp\<close> returns is a subsequence of the candidates: its
  elements are candidates, in the order of the input, none more often than in the input.
\<close>

theorem valid_users_subseq:
  assumes "fst (verify_smtp verbose usernames ip timeout_value sleep_value port srv)
      = Returned valid_users st"
  shows "subseq valid_users usernames \<and> set valid_users \<subseteq> set usernames
    \<and> (\<forall>u. count_list valid_users u \<le> count_list usernames u)"
proof -
  from assms obtain q where
    "fst (loop verbose timeout_value sleep_value ip q srv 0 usernames None [])
       = Returned valid_users st"
    by (auto simp: verify_smtp_def split: sum.splits if_splits)
  from loop_subseq [OF this] have s: "subseq valid_users usernames"
    by auto
  then have "set valid_users \<subseteq> set usernames"
    by (auto elim: list_emb_set)
  with s show ?thesis
    by (auto simp: subseq_count_list)
qed

theorem valid_users_subseq_witness:
  "fst (verify_smtp 0 [''alice'', ''bob'', ''alice''] ''10.0.0.1'' 5 0 (PortInt 25)
        (\<lambda>i. if i = 1 then Reply ''550 no'' else Reply ''252 ok''))
     = Returned [''alice'', ''alice''] Completed
   \<and> subseq [''alice'', ''alice''] [''alice'', ''bob'', ''alice'']"
proof -
  have r: "fst (verify_smtp 0 [''alice'', ''bob'', ''alice''] ''10.0.0.1'' 5 0 (PortInt 25)
        (\<lambda>i. if i = 1 then Reply ''550 no'' else Reply ''252 ok''))
     = Returned [''alice'', ''alice''] Completed"
    by (simp add: verify_smtp_def resolve_port_def body_Reply)
  from valid_users_subseq [OF r] r show ?thesis by blast
qed

subsection \<open>Teardown and delay\<close>




text \<open>
  In every iteration in which the socket is made, \<open>s\<close> is the socket of this candidate,
  it is opened first and closed once, no event of the candidate follows the close, the
  events of the next iteration come after it, and neither this close nor a later one
  raises for an unbound \<open>s\<close>.
\<close>

lemma socket_made_closed:
  assumes "srv i = p" and "\<not> is_SocketError p"
    and "body verbose timeout_value sleep_value ip port i user p s valid_users = (fl, s', vs, es)"
  shows "s' = Some i \<and> hd es = Open i \<and> filter is_Close es = [Close i]
    \<and> attempted (dropWhile (\<lambda>e. \<not> is_Close e) es) = []
    \<and> fl \<noteq> Raise UnboundLocalError
    \<and> snd (loop verbose timeout_value sleep_value ip port srv i (user # rest) s valid_users)
       = es @ (if fl = Next
               then snd (loop verbose timeout_value sleep_value ip port srv (Suc i) rest s' vs)
               else [])
    \<and> fst (loop verbose timeout_value sleep_value ip port srv i (user # rest) s valid_users)
       \<noteq> Raised UnboundLocalError"
proof -
  from body_socket [OF assms(2,3)] have s': "s' = Some i" and rest: "hd es = Open i"
    "filter is_Close es = [Close i]" "attempted (dropWhile (\<lambda>e. \<not> is_Close e) es) = []"
    by auto
  from body_teardown [OF assms(3) [unfolded s']] have fl: "fl \<noteq> Raise UnboundLocalError"
    by simp
  have "fst (loop verbose timeout_value sleep_value ip port srv i (user # rest) s valid_users)
       \<noteq> Raised UnboundLocalError"
    using assms(1,3) fl s'
      loop_bound [of verbose timeout_value sleep_value ip port srv "Suc i" rest i vs]
    by (cases fl) (auto split: prod.splits)
  with s' rest fl loop_events [where srv = srv and i = i, OF assms(1,3)] show ?thesis by simp
qed

text \<open>
  C8. The close of the teardown does fail for lack of a socket: line 68 stands inside the
  \<^verbatim>\<open>try\<close> block, so when \<^verbatim>\<open>socket.socket\<close> itself raises for the first candidate
  of a loop, \<open>s\<close> is unbound at line 106 and \<^verbatim>\<open>UnboundLocalError\<close> leaves the call,
  whatever the verbosity and the text of the error. When it raises for a later
  candidate, line 106 closes the socket of the candidate before once more, not one of
  this candidate.
\<close>

theorem close_without_socket:
  "fst (loop verbose timeout_value sleep_value ip port (srv(i := SocketError e)) i
          (user # rest) None valid_users) = Raised UnboundLocalError
   \<and> fst (verify_smtp 0 [''alice''] ''10.0.0.1'' 5 0 (PortInt 25)
            (\<lambda>i. SocketError ''[Errno 24] Too many open files'')) = Raised UnboundLocalError
   \<and> verify_smtp 0 [''alice'', ''bob''] ''10.0.0.1'' 5 0 (PortInt 25)
        (\<lambda>i. if i = 0 then ConnectError ''[Errno 111] Connection refused''
              else SocketError ''[Errno 24] Too many open files'')
       = (Returned [] Completed, [Open 0, Close 0, Close 0])"
proof -
  have "fst (body verbose timeout_value sleep_value ip port i user (SocketError e) None valid_users)
      = Raise UnboundLocalError"
    by (simp add: body_def try_block_def finally_block_def except_IOError_def
        split: prod.splits)
  then have "fst (loop verbose timeout_value sleep_value ip port (srv(i := SocketError e)) i
      (user # rest) None valid_users) = Raised UnboundLocalError"
    by (auto split: prod.splits flow.splits)
  moreover have "fst (verify_smtp 0 [''alice''] ''10.0.0.1'' 5 0 (PortInt 25)
      (\<lambda>i. SocketError ''[Errno 24] Too many open files'')) = Raised UnboundLocalError"
    by (simp add: verify_smtp_def resolve_port_def body_def try_block_def finally_block_def
        except_IOError_def)
  moreover have "verify_smtp 0 [''alice'', ''bob''] ''10.0.0.1'' 5 0 (PortInt 25)
        (\<lambda>i. if i = 0 then ConnectError ''[Errno 111] Connection refused''
              else SocketError ''[Errno 24] Too many open files'')
       = (Returned [] Completed, [Open 0, Close 0, Close 0])"
    by (simp add: verify_smtp_def resolve_port_def body_def try_block_def finally_block_def
        except_IOError_def)
  ultimately show ?thesis by blast
qed

subsection \<open>Verbosity\<close>

text \<open>
  C9. The verbosity decides the result: above 0, line 61 prints and then raises
  \<^verbatim>\<open>TypeError\<close> before the loop, where with verbosity 0 the same call probes the
  candidates and returns.
\<close>

theorem verbosity_changes_result:
  "fst (verify_smtp verbose usernames ip timeout_value sleep_value (PortInt p) srv) =
     (if 0 < verbose then Raised TypeError
      else fst (loop verbose timeout_value sleep_value ip p srv 0 usernames None []))
   \<and> verify_smtp 0 [''alice''] ''10.0.0.1'' 5 0 (PortInt 25) (\<lambda>i. Reply ''252 ok'')
       = (Returned [''alice''] Completed,
          [Open 0, Connect 0 ''10.0.0.1'' 25, Send 0 (''VRFY alice'' @ [CHR 0x0A]), Close 0])
   \<and> verify_smtp 1 [''alice''] ''10.0.0.1'' 5 0 (PortInt 25) (\<lambda>i. Reply ''252 ok'')
       = (Raised TypeError, [Print msg_connecting])"
  by (simp add: verify_smtp_def resolve_port_def body_Reply)

subsection \<open>The candidates of an inline argument\<close>











subsection \<open>The port and the empty sequence\<close>

text \<open>
  C4. On an empty candidate sequence no socket is made, whatever the configuration, and
  with verbosity 0 the call returns the empty list after a completed loop. With a
  verbosity above 0 line 61 raises \<^verbatim>\<open>TypeError\<close> instead of returning.
\<close>

theorem verify_smtp_empty:
  "verify_smtp verbose [] ip timeout_value sleep_value (PortInt p) srv =
     (if 0 < verbose then (Raised TypeError, [Print msg_connecting])
      else (Returned [] Completed, []))"
  by (simp add: verify_smtp_def resolve_port_def)

text \<open>
  C7, as the claim states it, fails: a port of length zero is not taken as unset, it is
  given to \<^verbatim>\<open>int\<close>, which raises.
\<close>

theorem port_zero_length_counterexample:
  "verify_smtp 0 [''alice''] ''10.0.0.1'' 5 0 (PortStr []) (\<lambda>i. Reply ''252 ok'')
     = (Raised ValueError, [])"
  by (simp add: verify_smtp_def resolve_port_def py_int_def strip_space_def)

text \<open>
  C7, amended. A port that is \<^verbatim>\<open>None\<close> or the text of one space is port 25: the call
  does what it does with the number 25. Every other text goes through \<^verbatim>\<open>int\<close>: one
  that is a number is that port, and one that is no number raises \<^verbatim>\<open>ValueError\<close>
  before any socket is made.
\<close>

theorem resolve_port_default:
  "resolve_port PortNone = Inr 25 \<and> resolve_port (PortStr '' '') = Inr 25
   \<and> verify_smtp verbose usernames ip timeout_value sleep_value PortNone srv
       = verify_smtp verbose usernames ip timeout_value sleep_value (PortInt 25) srv
   \<and> verify_smtp verbose usernames ip timeout_value sleep_value (PortStr '' '') srv
       = verify_smtp verbose usernames ip timeout_value sleep_value (PortInt 25) srv
   \<and> (\<forall>t. t \<noteq> '' '' \<and> py_int t = None \<longrightarrow>
         verify_smtp verbose usernames ip timeout_value sleep_value (PortStr t) srv
           = (Raised ValueError, []))
   \<and> (\<forall>t n. t \<noteq> '' '' \<and> py_int t = Some n \<longrightarrow>
         verify_smtp verbose usernames ip timeout_value sleep_value (PortStr t) srv
           = verify_smtp verbose usernames ip timeout_value sleep_value (PortInt n) srv)"
  by (simp add: verify_smtp_def resolve_port_def)

theorem resolve_port_default_witness:
  "''abc'' \<noteq> '' '' \<and> py_int ''abc'' = None
   \<and> verify_smtp 0 [''alice''] ''10.0.0.1'' 5 0 (PortStr ''abc'') (\<lambda>i. Reply ''252 ok'')
       = (Raised ValueError, [])
   \<and> [CHR 0xA0, CHR ''2'', CHR ''5''] \<noteq> '' '' \<and> py_int [CHR 0xA0, CHR ''2'', CHR ''5''] = Some 25
   \<and> py_int [CHR 0x1C, CHR ''2'', CHR ''5''] = None
   \<and> verify_smtp 0 [''alice''] ''10.0.0.1'' 5 0 (PortStr [CHR 0xA0, CHR ''2'', CHR ''5''])
        (\<lambda>i. Reply ''252 ok'')
       = verify_smtp 0 [''alice''] ''10.0.0.1'' 5 0 (PortInt 25) (\<lambda>i. Reply ''252 ok'')"
proof -
  have h: "''abc'' \<noteq> '' '' \<and> py_int ''abc'' = None"
    "[CHR 0xA0, CHR ''2'', CHR ''5''] \<noteq> '' '' \<and> py_int [CHR 0xA0, CHR ''2'', CHR ''5''] = Some 25"
    "py_int [CHR 0x1C, CHR ''2'', CHR ''5''] = None"
    by (simp_all add: py_int_def strip_space_def int_space_def digits_def is_digit_def
        digit_val_def)
  note r = resolve_port_default [of 0 "[''alice'']" "''10.0.0.1''" 5 0 "\<lambda>i. Reply ''252 ok''"]
  from r have a: "\<forall>t. t \<noteq> '' '' \<and> py_int t = None \<longrightarrow>
      verify_smtp 0 [''alice''] ''10.0.0.1'' 5 0 (PortStr t) (\<lambda>i. Reply ''252 ok'')
        = (Raised ValueError, [])"
    by (elim conjE)
  from r have b: "\<forall>t n. t \<noteq> '' '' \<and> py_int t = Some n \<longrightarrow>
      verify_smtp 0 [''alice''] ''10.0.0.1'' 5 0 (PortStr t) (\<lambda>i. Reply ''252 ok'')
        = verify_smtp 0 [''alice''] ''10.0.0.1'' 5 0 (PortInt n) (\<lambda>i. Reply ''252 ok'')"
    by (elim conjE)
  from a h(1) have A: "verify_smtp 0 [''alice''] ''10.0.0.1'' 5 0 (PortStr ''abc'')
      (\<lambda>i. Reply ''252 ok'') = (Raised ValueError, [])"
    by blast
  from b h(2) have B: "verify_smtp 0 [''alice''] ''10.0.0.1'' 5 0
      (PortStr [CHR 0xA0, CHR ''2'', CHR ''5'']) (\<lambda>i. Reply ''252 ok'')
      = verify_smtp 0 [''alice''] ''10.0.0.1'' 5 0 (PortInt 25) (\<lambda>i. Reply ''252 ok'')"
    by blast
  from A B h show ?thesis
    by (simp only: simp_thms)
qed

end
